theory Spec2Isabelle
  imports Complex_Main
begin

section \<open>Whisper ASR server: data model\<close>

text \<open>
  The development embeds \<^verbatim>\<open>docker/whisper-asr/server.py\<close>. The inference libraries
  (torch, whisper, faster_whisper), the temporary-file naming of \<^verbatim>\<open>tempfile\<close> and
  \<^verbatim>\<open>os.path.splitext\<close> are not part of the repository; they are the fields of the
  record \<open>libs\<close>, and every theorem holds for all of them. An exception is represented by
  its message \<open>str(e)\<close>; the exceptions of the model are instances of \<^verbatim>\<open>Exception\<close>, the
  class the handlers' \<^verbatim>\<open>except Exception\<close> clauses name. The handlers run one at a
  time: no call below has a suspension point between reading and writing the global
  \<^verbatim>\<open>model\<close>. Creating the temporary file is taken to succeed (a failure there leaves
  no file); reading the upload and writing it to the file can raise.
\<close>

type_synonym path = string
type_synonym filesystem = "path \<rightharpoonup> string"
type_synonym exn = string
type_synonym handle = nat
type_synonym audio = nat
type_synonym mel = nat

text \<open>A value of Python type \<^verbatim>\<open>Optional[str]\<close>.\<close>

datatype pyval = PNone | PStr string

text \<open>The three environment settings read at import time (lines 19 to 21).\<close>

record config =
  ASR_MODEL :: string
  ASR_ENGINE :: string
  ASR_MODEL_PATH :: string

text \<open>
  The two loading calls of \<^verbatim>\<open>get_model\<close> with their arguments:
  \<^verbatim>\<open>WhisperModel(ASR_MODEL, device=, compute_type=, download_root=)\<close> and
  \<^verbatim>\<open>whisper.load_model(ASR_MODEL, device=, download_root=)\<close>.
\<close>

datatype load_call =
    WhisperModel string string string string
  | LoadModel string string string

text \<open>
  The lazy segment sequence of faster_whisper: a generator that yields the next
  segment's text, ends, or raises while it is being consumed.
\<close>

datatype segments = Done | Yield string segments | Raise exn

datatype transcription_info =
  TranscriptionInfo (info_language: string) (info_language_probability: real)

text \<open>
  The process state: the global \<^verbatim>\<open>model\<close> (line 24), the files on disk, and the
  log of loading calls made so far (kept to count them; the source has no such log).
\<close>

record world =
  model :: "handle option"
  files :: filesystem
  loads :: "load_call list"

text \<open>
  The libraries. A call that reads or writes storage takes the files and returns them.
  \<open>fw_transcribe\<close> takes the keyword arguments \<^verbatim>\<open>task\<close>, \<^verbatim>\<open>language\<close> and
  \<^verbatim>\<open>beam_size\<close>, each \<open>None\<close> when the call does not pass it. \<open>write_error\<close> is the
  exception that \<^verbatim>\<open>tmp.write(content)\<close> raises for a path, the bytes and the files (a full
  disk, say), or \<open>None\<close> when the bytes are written.
\<close>

record libs =
  cuda_is_available :: bool
  load_weights :: "load_call \<Rightarrow> filesystem \<Rightarrow> (exn + handle) \<times> filesystem"
  fw_transcribe :: "handle \<Rightarrow> path \<Rightarrow> string option \<Rightarrow> pyval option \<Rightarrow> nat option
    \<Rightarrow> filesystem \<Rightarrow> (exn + segments \<times> transcription_info) \<times> filesystem"
  ow_transcribe :: "handle \<Rightarrow> path \<Rightarrow> string \<Rightarrow> pyval
    \<Rightarrow> filesystem \<Rightarrow> (exn + (string \<rightharpoonup> pyval)) \<times> filesystem"
  load_audio :: "path \<Rightarrow> filesystem \<Rightarrow> (exn + audio) \<times> filesystem"
  pad_or_trim :: "audio \<Rightarrow> exn + audio"
  log_mel_spectrogram :: "audio \<Rightarrow> exn + mel"
  model_device :: "handle \<Rightarrow> string"
  mel_to :: "mel \<Rightarrow> string \<Rightarrow> exn + mel"
  ow_detect_language :: "handle \<Rightarrow> mel \<Rightarrow> exn + (string \<times> real) list"
  splitext_ext :: "string \<Rightarrow> string"
  tmp_name :: "filesystem \<Rightarrow> string \<Rightarrow> path"
  write_error :: "path \<Rightarrow> string \<Rightarrow> filesystem \<Rightarrow> exn option"

section \<open>get_model (lines 33 to 54)\<close>

text \<open>
  The loading call that \<^verbatim>\<open>get_model\<close> makes: the device is probed (line 37), the
  fast engine chooses its compute type by device (line 42).
\<close>

definition load_args :: "libs \<Rightarrow> config \<Rightarrow> load_call" where
  "load_args L cfg =
     (let device = (if cuda_is_available L then ''cuda'' else ''cpu'') in
      if ASR_ENGINE cfg = ''faster_whisper''
      then WhisperModel (ASR_MODEL cfg) device
             (if device = ''cuda'' then ''float16'' else ''int8'') (ASR_MODEL_PATH cfg)
      else LoadModel (ASR_MODEL cfg) device (ASR_MODEL_PATH cfg))"

definition get_model :: "libs \<Rightarrow> config \<Rightarrow> world \<Rightarrow> (exn + handle) \<times> world" where
  "get_model L cfg w =
     (case model w of
        Some h \<Rightarrow> (Inr h, w)
      | None \<Rightarrow>
          (case load_weights L (load_args L cfg) (files w) of
             (Inl e, fs) \<Rightarrow> (Inl e, w\<lparr>files := fs, loads := loads w @ [load_args L cfg]\<rparr>)
           | (Inr h, fs) \<Rightarrow>
               (Inr h, w\<lparr>model := Some h, files := fs, loads := loads w @ [load_args L cfg]\<rparr>)))"

section \<open>Python library functions used by the handlers\<close>

text \<open>
  \<^verbatim>\<open>str.strip()\<close> removes the whitespace at both ends. A string is a list of
  characters with code points below 256; the whitespace among them is listed here.
\<close>

definition whitespace :: "char list" where
  "whitespace = [CHR 0x09, CHR 0x0A, CHR 0x0B, CHR 0x0C, CHR 0x0D,
                 CHR 0x1C, CHR 0x1D, CHR 0x1E, CHR 0x1F, CHR 0x20, CHR 0x85, CHR 0xA0]"

definition isspace :: "char \<Rightarrow> bool" where
  "isspace c = (c \<in> set whitespace)"

definition strip :: "string \<Rightarrow> string" where
  "strip s = rev (dropWhile isspace (rev (dropWhile isspace s)))"

text \<open>\<^verbatim>\<open>sep.join(xs)\<close>.\<close>

fun join :: "string \<Rightarrow> string list \<Rightarrow> string" where
  "join sep [] = []"
| "join sep [x] = x"
| "join sep (x # y # ys) = x @ sep @ join sep (y # ys)"

text \<open>
  The list comprehension \<^verbatim>\<open>[segment.text for segment in segments]\<close>: it runs the
  generator to its end, and an exception raised on the way leaves the comprehension.
\<close>

fun consume :: "segments \<Rightarrow> exn + string list" where
  "consume Done = Inr []"
| "consume (Raise e) = Inl e"
| "consume (Yield t rest) =
     (case consume rest of Inl e \<Rightarrow> Inl e | Inr ts \<Rightarrow> Inr (t # ts))"

text \<open>
  \<^verbatim>\<open>max(xs, key=f)\<close>: the first element is the candidate, a later one replaces it
  only when its key is strictly greater; on an empty sequence \<open>max\<close> raises ValueError.
\<close>

fun py_max :: "'a list \<Rightarrow> ('a \<Rightarrow> 'b::linorder) \<Rightarrow> 'a option" where
  "py_max [] key = None"
| "py_max (x # xs) key = Some (fold (\<lambda>y m. if key m < key y then y else m) xs x)"

text \<open>
  A dict of probabilities is the list of its items in iteration order; \<open>dict_get\<close> is
  \<^verbatim>\<open>probs.get\<close> and \<^verbatim>\<open>probs[k]\<close> on a key of the dict.
\<close>

definition dict_get :: "(string \<times> real) list \<Rightarrow> string \<Rightarrow> real" where
  "dict_get probs k = the (map_of probs k)"

definition os_path_exists :: "filesystem \<Rightarrow> path \<Rightarrow> bool" where
  "os_path_exists fs p = (fs p \<noteq> None)"

definition os_unlink :: "path \<Rightarrow> filesystem \<Rightarrow> exn + filesystem" where
  "os_unlink p fs =
     (if fs p = None then Inl ''[Errno 2] No such file or directory''
      else Inr (fs(p := None)))"

section \<open>The request handlers\<close>

text \<open>
  An uploaded file: its name, and what \<^verbatim>\<open>await audio_file.read()\<close> gives, the bytes
  or the exception it raises.
\<close>

record upload =
  filename :: string
  content :: "exn + string"

record asr_request =
  audio_file :: "upload option"
  task :: string
  language :: pyval
  "output" :: string

text \<open>
  What \<^verbatim>\<open>transcribe\<close> returns: \<^verbatim>\<open>JSONResponse(content=, media_type=)\<close> or the
  dict with the keys \<^verbatim>\<open>text\<close>, \<^verbatim>\<open>language\<close> and \<^verbatim>\<open>task\<close>.
\<close>

datatype asr_response =
    is_JSONResponse: JSONResponse pyval string
  | is_TranscriptDict: TranscriptDict string pyval string

text \<open>The dict with the keys \<^verbatim>\<open>detected_language\<close> and \<^verbatim>\<open>language_probability\<close>.\<close>

datatype detect_response = DetectDict string real

text \<open>
  How a handler fails: with the \<^verbatim>\<open>HTTPException(status_code=, detail=)\<close> it raises
  itself, or with an exception that leaves it uncaught.
\<close>

datatype failure = HTTPException nat string | Uncaught exn

text \<open>The \<^verbatim>\<open>finally\<close> block of both handlers (lines 139 to 142 and 172 to 174).\<close>

definition remove_tmp :: "path \<Rightarrow> filesystem \<Rightarrow> exn + filesystem" where
  "remove_tmp tmp_path fs =
     (if os_path_exists fs tmp_path then os_unlink tmp_path fs else Inr fs)"

text \<open>
  The \<^verbatim>\<open>with tempfile.NamedTemporaryFile(delete=False, suffix=...)\<close> block of both
  handlers (lines 100 to 103 and 148 to 151). Entering it creates the empty file under a
  name with the suffix of the upload's name. Its body reads the upload and writes the
  bytes; either can raise, and then the block closes the file, which stays on disk
  (\<^verbatim>\<open>delete=False\<close>), and the exception leaves the block. Otherwise the block gives
  \<^verbatim>\<open>tmp_path\<close>.
\<close>

definition tmp_path_of :: "libs \<Rightarrow> upload \<Rightarrow> world \<Rightarrow> path" where
  "tmp_path_of L up w = tmp_name L (files w) (splitext_ext L (filename up))"

definition create_tmp :: "libs \<Rightarrow> upload \<Rightarrow> world \<Rightarrow> world" where
  "create_tmp L up w = w\<lparr>files := (files w)(tmp_path_of L up w \<mapsto> [])\<rparr>"

definition save_upload :: "libs \<Rightarrow> upload \<Rightarrow> world \<Rightarrow> (exn + path) \<times> world" where
  "save_upload L up w =
     (case content up of
        Inl e \<Rightarrow> (Inl e, create_tmp L up w)
      | Inr bytes \<Rightarrow>
          (case write_error L (tmp_path_of L up w) bytes (files (create_tmp L up w)) of
             Some e \<Rightarrow> (Inl e, create_tmp L up w)
           | None \<Rightarrow>
               (Inr (tmp_path_of L up w),
                w\<lparr>files := (files w)(tmp_path_of L up w \<mapsto> bytes)\<rparr>)))"

text \<open>
  Lines 108 to 124: the engine branch of \<^verbatim>\<open>transcribe\<close>, which computes
  \<^verbatim>\<open>text\<close> and \<^verbatim>\<open>detected_language\<close>. \<^verbatim>\<open>result["text"]\<close> raises KeyError on a
  missing key, and \<^verbatim>\<open>result.get("language", language)\<close> falls back on a missing key.
\<close>

definition asr_engine ::
  "libs \<Rightarrow> config \<Rightarrow> handle \<Rightarrow> path \<Rightarrow> asr_request \<Rightarrow> filesystem
     \<Rightarrow> (exn + pyval \<times> pyval) \<times> filesystem" where
  "asr_engine L cfg whisper_model tmp_path rq fs =
     (if ASR_ENGINE cfg = ''faster_whisper'' then
        (case fw_transcribe L whisper_model tmp_path
                (Some (task rq)) (Some (language rq)) (Some 5) fs of
           (Inl e, fs1) \<Rightarrow> (Inl e, fs1)
         | (Inr (segs, info), fs1) \<Rightarrow>
             (case consume segs of
                Inl e \<Rightarrow> (Inl e, fs1)
              | Inr texts \<Rightarrow> (Inr (PStr (join '' '' texts), PStr (info_language info)), fs1)))
      else
        (case ow_transcribe L whisper_model tmp_path (task rq) (language rq) fs of
           (Inl e, fs1) \<Rightarrow> (Inl e, fs1)
         | (Inr result, fs1) \<Rightarrow>
             (case result ''text'' of
                None \<Rightarrow> (Inl (CHR 0x27 # ''text'' @ [CHR 0x27]), fs1)
              | Some text \<Rightarrow>
                  (Inr (text, (case result ''language'' of
                                 None \<Rightarrow> language rq
                               | Some v \<Rightarrow> v)), fs1))))"

text \<open>
  Lines 106 to 133: the body of the \<^verbatim>\<open>try\<close> block of \<^verbatim>\<open>transcribe\<close>.
  \<^verbatim>\<open>text.strip()\<close> raises AttributeError when \<^verbatim>\<open>text\<close> is \<^verbatim>\<open>None\<close>.
\<close>

definition asr_try ::
  "libs \<Rightarrow> config \<Rightarrow> asr_request \<Rightarrow> path \<Rightarrow> world \<Rightarrow> (exn + asr_response) \<times> world" where
  "asr_try L cfg rq tmp_path w =
     (case get_model L cfg w of
        (Inl e, w1) \<Rightarrow> (Inl e, w1)
      | (Inr whisper_model, w1) \<Rightarrow>
          (case asr_engine L cfg whisper_model tmp_path rq (files w1) of
             (Inl e, fs2) \<Rightarrow> (Inl e, w1\<lparr>files := fs2\<rparr>)
           | (Inr (text, detected_language), fs2) \<Rightarrow>
               if output rq = ''txt'' then
                 (Inr (JSONResponse text ''text/plain''), w1\<lparr>files := fs2\<rparr>)
               else
                 (case text of
                    PStr s \<Rightarrow>
                      (Inr (TranscriptDict (strip s) detected_language (task rq)),
                       w1\<lparr>files := fs2\<rparr>)
                  | PNone \<Rightarrow>
                      (Inl (CHR 0x27 # ''NoneType'' @ CHR 0x27 # '' object has no attribute ''
                            @ CHR 0x27 # ''strip'' @ [CHR 0x27]),
                       w1\<lparr>files := fs2\<rparr>))))"

text \<open>
  Lines 135 to 142, shared by both handlers: \<^verbatim>\<open>except Exception\<close> turns the
  exception into \<^verbatim>\<open>HTTPException(status_code=500, detail=str(e))\<close>, and the
  \<^verbatim>\<open>finally\<close> block runs on both ways out.
\<close>

definition except_finally ::
  "path \<Rightarrow> (exn + 'a) \<times> world \<Rightarrow> (failure + 'a) \<times> world" where
  "except_finally tmp_path rw =
     (case rw of (r, w) \<Rightarrow>
        (case remove_tmp tmp_path (files w) of
           Inl e \<Rightarrow> (Inl (Uncaught e), w)
         | Inr fs \<Rightarrow>
             ((case r of Inl e \<Rightarrow> Inl (HTTPException 500 e) | Inr x \<Rightarrow> Inr x),
              w\<lparr>files := fs\<rparr>)))"

text \<open>
  Lines 78 to 142. An exception of the \<^verbatim>\<open>with\<close> block is raised before the
  \<^verbatim>\<open>try\<close> statement of line 105 is entered: it leaves the handler as it is, and
  neither the \<^verbatim>\<open>except\<close> clause nor the \<^verbatim>\<open>finally\<close> block runs.
\<close>

definition transcribe ::
  "libs \<Rightarrow> config \<Rightarrow> asr_request \<Rightarrow> world \<Rightarrow> (failure + asr_response) \<times> world" where
  "transcribe L cfg rq w =
     (case audio_file rq of
        None \<Rightarrow> (Inl (HTTPException 400 ''No audio file provided''), w)
      | Some up \<Rightarrow>
          (case save_upload L up w of
             (Inl e, w0) \<Rightarrow> (Inl (Uncaught e), w0)
           | (Inr tmp_path, w0) \<Rightarrow>
               except_finally tmp_path (asr_try L cfg rq tmp_path w0)))"

text \<open>
  Lines 161 to 164: the standard engine's detection pipeline, from the file to the
  probabilities of the languages.
\<close>

definition detect_probs ::
  "libs \<Rightarrow> handle \<Rightarrow> path \<Rightarrow> filesystem \<Rightarrow> (exn + (string \<times> real) list) \<times> filesystem" where
  "detect_probs L whisper_model tmp_path fs =
     (case load_audio L tmp_path fs of
        (Inl e, fs1) \<Rightarrow> (Inl e, fs1)
      | (Inr a, fs1) \<Rightarrow>
          (case pad_or_trim L a of
             Inl e \<Rightarrow> (Inl e, fs1)
           | Inr a1 \<Rightarrow>
               (case log_mel_spectrogram L a1 of
                  Inl e \<Rightarrow> (Inl e, fs1)
                | Inr m \<Rightarrow>
                    (case mel_to L m (model_device L whisper_model) of
                       Inl e \<Rightarrow> (Inl e, fs1)
                     | Inr m1 \<Rightarrow> (ow_detect_language L whisper_model m1, fs1)))))"

text \<open>Lines 154 to 166: the body of the \<^verbatim>\<open>try\<close> block of \<^verbatim>\<open>detect_language\<close>.\<close>

definition detect_try ::
  "libs \<Rightarrow> config \<Rightarrow> path \<Rightarrow> world \<Rightarrow> (exn + detect_response) \<times> world" where
  "detect_try L cfg tmp_path w =
     (case get_model L cfg w of
        (Inl e, w1) \<Rightarrow> (Inl e, w1)
      | (Inr whisper_model, w1) \<Rightarrow>
          if ASR_ENGINE cfg = ''faster_whisper'' then
            (case fw_transcribe L whisper_model tmp_path None None None (files w1) of
               (Inl e, fs2) \<Rightarrow> (Inl e, w1\<lparr>files := fs2\<rparr>)
             | (Inr (segs, info), fs2) \<Rightarrow>
                 (Inr (DetectDict (info_language info) (info_language_probability info)),
                  w1\<lparr>files := fs2\<rparr>))
          else
            (case detect_probs L whisper_model tmp_path (files w1) of
               (Inl e, fs2) \<Rightarrow> (Inl e, w1\<lparr>files := fs2\<rparr>)
             | (Inr probs, fs2) \<Rightarrow>
                 (case py_max (map fst probs) (dict_get probs) of
                    None \<Rightarrow> (Inl ''max() arg is an empty sequence'', w1\<lparr>files := fs2\<rparr>)
                  | Some detected_lang \<Rightarrow>
                      (Inr (DetectDict detected_lang (dict_get probs detected_lang)),
                       w1\<lparr>files := fs2\<rparr>))))"

text \<open>Lines 145 to 174.\<close>

definition detect_language ::
  "libs \<Rightarrow> config \<Rightarrow> upload \<Rightarrow> world \<Rightarrow> (failure + detect_response) \<times> world" where
  "detect_language L cfg up w =
     (case save_upload L up w of
        (Inl e, w0) \<Rightarrow> (Inl (Uncaught e), w0)
      | (Inr tmp_path, w0) \<Rightarrow> except_finally tmp_path (detect_try L cfg tmp_path w0))"

text \<open>Lines 57 to 64: the startup hook preloads the model.\<close>

definition startup_event :: "libs \<Rightarrow> config \<Rightarrow> world \<Rightarrow> (exn + unit) \<times> world" where
  "startup_event L cfg w =
     (case get_model L cfg w of (Inl e, w1) \<Rightarrow> (Inl e, w1) | (Inr h, w1) \<Rightarrow> (Inr (), w1))"

text \<open>
  The life of the process: the events it handles, one after the other, whatever each
  of them returns or raises. The health check (lines 67 to 75) reads no state.
\<close>

datatype event = Startup | Health | Asr asr_request | Detect upload

fun handle_event :: "libs \<Rightarrow> config \<Rightarrow> event \<Rightarrow> world \<Rightarrow> world" where
  "handle_event L cfg Startup w = snd (startup_event L cfg w)"
| "handle_event L cfg Health w = w"
| "handle_event L cfg (Asr rq) w = snd (transcribe L cfg rq w)"
| "handle_event L cfg (Detect up) w = snd (detect_language L cfg up w)"

definition run :: "libs \<Rightarrow> config \<Rightarrow> event list \<Rightarrow> world \<Rightarrow> world" where
  "run L cfg evs w = fold (handle_event L cfg) evs w"

section \<open>Concrete libraries and requests\<close>

text \<open>
  Libraries with fixed answers, for running the handlers on concrete requests: the
  outcome of loading, of the fast engine's and of the standard engine's transcription,
  of the standard engine's detection, and what a transcription call does to the files.
\<close>

definition fixed_libs ::
  "(exn + handle) \<Rightarrow> (exn + segments \<times> transcription_info) \<Rightarrow> (exn + (string \<rightharpoonup> pyval))
     \<Rightarrow> (exn + (string \<times> real) list) \<Rightarrow> (path \<Rightarrow> filesystem \<Rightarrow> filesystem) \<Rightarrow> libs" where
  "fixed_libs ld fw ow dl touch =
     \<lparr>cuda_is_available = False,
      load_weights = (\<lambda>c fs. (ld, fs)),
      fw_transcribe = (\<lambda>h p t l b fs. (fw, touch p fs)),
      ow_transcribe = (\<lambda>h p t l fs. (ow, touch p fs)),
      load_audio = (\<lambda>p fs. (Inr 0, fs)),
      pad_or_trim = Inr,
      log_mel_spectrogram = Inr,
      model_device = (\<lambda>h. ''cpu''),
      mel_to = (\<lambda>m d. Inr m),
      ow_detect_language = (\<lambda>h m. dl),
      splitext_ext = (\<lambda>f. ''.wav''),
      tmp_name = (\<lambda>fs suffix. ''/tmp/tmpq3x'' @ suffix),
      write_error = (\<lambda>p bytes fs. None)\<rparr>"

definition keep :: "path \<Rightarrow> filesystem \<Rightarrow> filesystem" where
  "keep p fs = fs"

definition delete :: "path \<Rightarrow> filesystem \<Rightarrow> filesystem" where
  "delete p fs = fs(p := None)"

definition openai_cfg :: config where
  "openai_cfg = \<lparr>ASR_MODEL = ''base'', ASR_ENGINE = ''openai_whisper'',
                  ASR_MODEL_PATH = ''/data/whisper''\<rparr>"

definition faster_cfg :: config where
  "faster_cfg = \<lparr>ASR_MODEL = ''base'', ASR_ENGINE = ''faster_whisper'',
                  ASR_MODEL_PATH = ''/data/whisper''\<rparr>"

definition fresh :: world where
  "fresh = \<lparr>model = None, files = Map.empty, loads = []\<rparr>"

definition clip :: upload where
  "clip = \<lparr>filename = ''clip.wav'', content = Inr ''RIFF''\<rparr>"

definition broken_clip :: upload where
  "broken_clip = \<lparr>filename = ''clip.wav'', content = Inl ''I/O operation on closed file.''\<rparr>"

definition request :: "pyval \<Rightarrow> string \<Rightarrow> asr_request" where
  "request lang out =
     \<lparr>audio_file = Some clip, task = ''transcribe'', language = lang, output = out\<rparr>"

text \<open>
  Segments as a generator that yields the given texts in order and ends.
\<close>

fun yielding :: "string list \<Rightarrow> segments" where
  "yielding [] = Done"
| "yielding (t # ts) = Yield t (yielding ts)"

text \<open>
  The libraries of the examples: a standard engine whose result has no language key, one
  whose result has the key with the value \<^verbatim>\<open>None\<close>, a fast engine with two segments,
  one whose segments start with a space as faster_whisper's do, a backend that removes the
  audio file and raises, a generator that raises after its first segment, and a standard
  engine that detects English with probability 0.9 and French with 0.1.
\<close>

definition std_no_language :: libs where
  "std_no_language =
     fixed_libs (Inr 7) (Inl []) (Inr [''text'' \<mapsto> PStr '' Hi there '']) (Inl []) keep"

definition std_language_none :: libs where
  "std_language_none =
     fixed_libs (Inr 7) (Inl [])
       (Inr [''text'' \<mapsto> PStr '' Hi there '', ''language'' \<mapsto> PNone]) (Inl []) keep"

definition hello_world :: libs where
  "hello_world =
     fixed_libs (Inr 7) (Inr (yielding [''Hello'', ''world''], TranscriptionInfo ''en'' (9 / 10)))
       (Inl []) (Inl []) keep"

definition spaced_segments :: libs where
  "spaced_segments =
     fixed_libs (Inr 7)
       (Inr (yielding ['' Hello'', '' world''], TranscriptionInfo ''en'' (9 / 10)))
       (Inl []) (Inl []) keep"

definition broken_backend :: libs where
  "broken_backend = fixed_libs (Inr 7) (Inl ''boom'') (Inl ''boom'') (Inl ''boom'') delete"

definition broken_stream :: libs where
  "broken_stream =
     fixed_libs (Inr 7)
       (Inr (Yield ''Hello'' (Raise ''decode failed''), TranscriptionInfo ''en'' (9 / 10)))
       (Inl []) (Inl []) keep"

definition en_fr :: libs where
  "en_fr = fixed_libs (Inr 7) (Inl []) (Inl []) (Inr [(''en'', 9 / 10), (''fr'', 1 / 10)]) keep"

text \<open>
  A temporary directory with no space left, where \<^verbatim>\<open>tmp.write\<close> raises OSError, and a
  standard engine whose \<^verbatim>\<open>whisper.load_audio\<close> raises.
\<close>

definition full_disk :: libs where
  "full_disk =
     (fixed_libs (Inr 7) (Inl []) (Inl []) (Inl []) keep)
       \<lparr>write_error := (\<lambda>p bytes fs. Some ''[Errno 28] No space left on device'')\<rparr>"

definition no_ffmpeg :: libs where
  "no_ffmpeg =
     (fixed_libs (Inr 7) (Inl []) (Inl []) (Inr [(''en'', 9 / 10)]) keep)
       \<lparr>load_audio := (\<lambda>p fs. (Inl ''Failed to load audio'', fs))\<rparr>"

text \<open>The state of a fresh process after the clip has been saved.\<close>

definition saved :: world where
  "saved = fresh\<lparr>files := [''/tmp/tmpq3x.wav'' \<mapsto> ''RIFF'']\<rparr>"

section \<open>What it means for the backend to raise\<close>



section \<open>Unfolding and evaluation rules\<close>

lemmas handler_defs =
  transcribe_def detect_language_def asr_try_def detect_try_def asr_engine_def detect_probs_def
  get_model_def load_args_def tmp_path_of_def create_tmp_def save_upload_def startup_event_def
  run_def

lemmas example_defs =
  fixed_libs_def keep_def delete_def openai_cfg_def faster_cfg_def fresh_def clip_def
  broken_clip_def request_def

lemmas string_defs = strip_def isspace_def whitespace_def dict_get_def

lemmas libs_defs =
  std_no_language_def std_language_none_def hello_world_def spaced_segments_def
  broken_backend_def broken_stream_def en_fr_def full_disk_def no_ffmpeg_def

lemmas cleanup_defs = except_finally_def remove_tmp_def os_path_exists_def os_unlink_def

section \<open>The cleanup never fails\<close>

lemma remove_tmp_total: "remove_tmp p fs = Inr (fs(p := None))"
  by (auto simp: remove_tmp_def os_path_exists_def os_unlink_def)

lemma except_finally_eq:
  "except_finally p (r, w) =
     ((case r of Inl e \<Rightarrow> Inl (HTTPException 500 e) | Inr x \<Rightarrow> Inr x),
      w\<lparr>files := (files w)(p := None)\<rparr>)"
  by (simp add: except_finally_def remove_tmp_total)

lemma except_finally_fst:
  "fst (except_finally p rw) =
     (case fst rw of Inl e \<Rightarrow> Inl (HTTPException 500 e) | Inr x \<Rightarrow> Inr x)"
  by (cases rw) (simp add: except_finally_eq)

lemma except_finally_snd:
  "snd (except_finally p rw) = (snd rw)\<lparr>files := (files (snd rw))(p := None)\<rparr>"
  by (cases rw) (simp add: except_finally_eq)

section \<open>The cached model\<close>

lemma get_model_loaded: "model w = Some h \<Longrightarrow> get_model L cfg w = (Inr h, w)"
  by (simp add: get_model_def)

lemma save_upload_fields:
  "model (snd (save_upload L up w)) = model w" "loads (snd (save_upload L up w)) = loads w"
  by (simp_all add: save_upload_def create_tmp_def split: sum.splits option.splits)

lemma save_upload_saved:
  assumes "save_upload L up w = (Inr p, w0)"
  shows "p = tmp_path_of L up w" and "model w0 = model w" and "loads w0 = loads w"
  using assms
  by (auto simp: save_upload_def create_tmp_def split: sum.splits option.splits)

lemma transcribe_saved:
  "audio_file rq = Some up \<Longrightarrow> save_upload L up w = (Inr p, w0) \<Longrightarrow>
     transcribe L cfg rq w = except_finally p (asr_try L cfg rq p w0)"
  by (simp add: transcribe_def)

lemma transcribe_unsaved:
  "audio_file rq = Some up \<Longrightarrow> save_upload L up w = (Inl e, w0) \<Longrightarrow>
     transcribe L cfg rq w = (Inl (Uncaught e), w0)"
  by (simp add: transcribe_def)

lemma detect_saved:
  "save_upload L up w = (Inr p, w0) \<Longrightarrow>
     detect_language L cfg up w = except_finally p (detect_try L cfg p w0)"
  by (simp add: detect_language_def)

lemma detect_unsaved:
  "save_upload L up w = (Inl e, w0) \<Longrightarrow> detect_language L cfg up w = (Inl (Uncaught e), w0)"
  by (simp add: detect_language_def)

lemma asr_try_keeps:
  assumes "model w = Some h"
  shows "model (snd (asr_try L cfg rq p w)) = Some h
       \<and> loads (snd (asr_try L cfg rq p w)) = loads w"
  using assms
  by (simp add: asr_try_def get_model_loaded split: prod.splits sum.splits pyval.splits)

lemma detect_try_keeps:
  assumes "model w = Some h"
  shows "model (snd (detect_try L cfg p w)) = Some h
       \<and> loads (snd (detect_try L cfg p w)) = loads w"
  using assms
  by (simp add: detect_try_def get_model_loaded split: prod.splits sum.splits option.splits)

lemma handle_event_keeps:
  assumes "model w = Some h"
  shows "model (handle_event L cfg ev w) = Some h
       \<and> loads (handle_event L cfg ev w) = loads w"
proof (cases ev)
  case Startup
  with assms show ?thesis by (simp add: startup_event_def get_model_loaded)
next
  case Health
  with assms show ?thesis by simp
next
  case (Asr rq)
  show ?thesis
  proof (cases "audio_file rq")
    case None
    with Asr assms show ?thesis by (simp add: transcribe_def)
  next
    case (Some up)
    obtain r w0 where s: "save_upload L up w = (r, w0)" by (cases "save_upload L up w")
    from save_upload_fields[of L up w] s assms
    have m: "model w0 = Some h" and l: "loads w0 = loads w" by simp_all
    show ?thesis
    proof (cases r)
      case (Inl e)
      with s have "save_upload L up w = (Inl e, w0)" by simp
      from transcribe_unsaved[OF Some this] Asr m l show ?thesis by simp
    next
      case (Inr p)
      with s have "save_upload L up w = (Inr p, w0)" by simp
      from transcribe_saved[OF Some this] asr_try_keeps[OF m] Asr l show ?thesis
        by (simp add: except_finally_snd)
    qed
  qed
next
  case (Detect up)
  obtain r w0 where s: "save_upload L up w = (r, w0)" by (cases "save_upload L up w")
  from save_upload_fields[of L up w] s assms
  have m: "model w0 = Some h" and l: "loads w0 = loads w" by simp_all
  show ?thesis
  proof (cases r)
    case (Inl e)
    with s have "save_upload L up w = (Inl e, w0)" by simp
    from detect_unsaved[OF this] Detect m l show ?thesis by simp
  next
    case (Inr p)
    with s have "save_upload L up w = (Inr p, w0)" by simp
    from detect_saved[OF this] detect_try_keeps[OF m] Detect l show ?thesis
      by (simp add: except_finally_snd)
  qed
qed

lemma run_keeps:
  "model w = Some h \<Longrightarrow>
     model (run L cfg evs w) = Some h \<and> loads (run L cfg evs w) = loads w"
proof (induction evs arbitrary: w)
  case Nil
  then show ?case by (simp add: run_def)
next
  case (Cons ev evs)
  from handle_event_keeps[OF Cons.prems]
  have a: "model (handle_event L cfg ev w) = Some h"
    and b: "loads (handle_event L cfg ev w) = loads w"
    by simp_all
  from Cons.IH[OF a] b show ?case by (simp add: run_def)
qed

text \<open>
  C9: once the model is loaded, \<open>get_model\<close> returns the cached handle and leaves the
  whole state as it is: no loading call is made and no file is touched. Whatever events
  the process handles afterwards, the handle stays the same and no further loading call
  is logged, so the global goes from absent to loaded at most once.
\<close>

theorem get_model_cached:
  assumes "model w = Some h"
  shows "get_model L cfg w = (Inr h, w)
       \<and> model (run L cfg evs w) = Some h
       \<and> loads (run L cfg evs w) = loads w"
  using assms get_model_loaded run_keeps by simp

theorem get_model_cached_witness:
  "model (fresh\<lparr>model := Some 7\<rparr>) = Some 7
   \<and> get_model (fixed_libs (Inl ''no weights'') (Inl []) (Inl []) (Inl []) keep) openai_cfg
        (fresh\<lparr>model := Some 7\<rparr>) = (Inr 7, fresh\<lparr>model := Some 7\<rparr>)
   \<and> model (run (fixed_libs (Inl ''no weights'') (Inl []) (Inl []) (Inl []) keep) openai_cfg
        [Asr (request PNone ''json''), Detect clip, Startup, Health] (fresh\<lparr>model := Some 7\<rparr>))
       = Some 7
   \<and> loads (run (fixed_libs (Inl ''no weights'') (Inl []) (Inl []) (Inl []) keep) openai_cfg
        [Asr (request PNone ''json''), Detect clip, Startup, Health] (fresh\<lparr>model := Some 7\<rparr>))
       = loads (fresh\<lparr>model := Some 7\<rparr>)"
proof -
  have h: "model (fresh\<lparr>model := Some 7\<rparr>) = Some 7" by simp
  from get_model_cached[OF h] h show ?thesis by blast
qed

text \<open>
  C8: when the model is absent and the loading call raises \<open>e\<close>, \<open>get_model\<close> raises
  \<open>e\<close> to its caller (the startup hook passes it on), the global stays \<open>None\<close>, and the
  call has made exactly one loading attempt. The next call of \<open>get_model\<close> makes the
  next attempt.
\<close>

theorem get_model_load_failure:
  assumes "model w = None"
    and "load_weights L (load_args L cfg) (files w) = (Inl e, fs)"
  shows "get_model L cfg w = (Inl e, w\<lparr>files := fs, loads := loads w @ [load_args L cfg]\<rparr>)
       \<and> model (snd (get_model L cfg w)) = None
       \<and> loads (snd (get_model L cfg w)) = loads w @ [load_args L cfg]
       \<and> startup_event L cfg w = (Inl e, snd (get_model L cfg w))
       \<and> loads (snd (get_model L cfg (snd (get_model L cfg w))))
           = loads w @ [load_args L cfg, load_args L cfg]"
  using assms
  by (simp add: get_model_def startup_event_def split: prod.splits sum.splits)

theorem get_model_load_failure_witness:
  "model fresh = None
   \<and> load_weights (fixed_libs (Inl ''no weights'') (Inl []) (Inl []) (Inl []) keep)
        (load_args (fixed_libs (Inl ''no weights'') (Inl []) (Inl []) (Inl []) keep) openai_cfg)
        (files fresh) = (Inl ''no weights'', Map.empty)
   \<and> model (snd (get_model (fixed_libs (Inl ''no weights'') (Inl []) (Inl []) (Inl []) keep)
        openai_cfg fresh)) = None
   \<and> loads (snd (get_model (fixed_libs (Inl ''no weights'') (Inl []) (Inl []) (Inl []) keep)
        openai_cfg fresh)) = [LoadModel ''base'' ''cpu'' ''/data/whisper'']"
proof -
  let ?L = "fixed_libs (Inl ''no weights'') (Inl []) (Inl []) (Inl []) keep"
  have a: "model fresh = None" by (simp add: fresh_def)
  have b: "load_weights ?L (load_args ?L openai_cfg) (files fresh)
             = (Inl ''no weights'', Map.empty)"
    by (simp add: fixed_libs_def fresh_def)
  have c: "load_args ?L openai_cfg = LoadModel ''base'' ''cpu'' ''/data/whisper''"
    by (simp add: load_args_def fixed_libs_def openai_cfg_def)
  have d: "loads fresh = []" by (simp add: fresh_def)
  from get_model_load_failure[OF a b] a b c d show ?thesis by simp
qed

section \<open>The temporary file\<close>

lemma save_clip:
  "save_upload (fixed_libs ld fw ow dl touch) clip fresh = (Inr ''/tmp/tmpq3x.wav'', saved)"
  by (simp add: save_upload_def create_tmp_def tmp_path_of_def fixed_libs_def clip_def
      fresh_def saved_def)

lemma load_saved:
  "fst (get_model (fixed_libs (Inr h) fw ow dl touch) cfg saved) = Inr h"
  by (simp add: get_model_def fixed_libs_def saved_def fresh_def)

text \<open>
  Once the upload has been saved and the \<^verbatim>\<open>try\<close> statement is entered, the
  \<^verbatim>\<open>finally\<close> block removes the file on every way out of it, whatever the libraries
  have done to the files.
\<close>

lemma tmp_file_removed_after_try:
  assumes "save_upload L up w = (Inr p, w0)"
  shows "audio_file rq = Some up \<Longrightarrow> files (snd (transcribe L cfg rq w)) p = None"
    and "files (snd (detect_language L cfg up w)) p = None"
  using assms
  by (simp_all add: transcribe_saved detect_saved except_finally_snd)

text \<open>
  C3, evaluated where it fails: the file is created at line 100 (148 for detection),
  the upload is read and written at lines 101 and 102, and the \<^verbatim>\<open>try\<close> statement
  with the cleanup starts only at line 105. When the temporary directory is full,
  \<^verbatim>\<open>tmp.write(content)\<close> raises, the handler is left with that exception, and the
  file created for the request stays on disk; the same happens when reading the upload
  raises.
\<close>

theorem tmp_file_left_when_upload_fails:
  "fst (transcribe full_disk openai_cfg (request PNone ''json'') fresh)
     = Inl (Uncaught ''[Errno 28] No space left on device'')
   \<and> os_path_exists (files (snd (transcribe full_disk openai_cfg (request PNone ''json'') fresh)))
        (tmp_path_of full_disk clip fresh)
   \<and> fst (detect_language full_disk openai_cfg clip fresh)
     = Inl (Uncaught ''[Errno 28] No space left on device'')
   \<and> os_path_exists (files (snd (detect_language full_disk openai_cfg clip fresh)))
        (tmp_path_of full_disk clip fresh)
   \<and> fst (detect_language en_fr openai_cfg broken_clip fresh)
     = Inl (Uncaught ''I/O operation on closed file.'')
   \<and> os_path_exists (files (snd (detect_language en_fr openai_cfg broken_clip fresh)))
        (tmp_path_of en_fr broken_clip fresh)"
  by (simp add: transcribe_def detect_language_def save_upload_def create_tmp_def
      tmp_path_of_def os_path_exists_def example_defs libs_defs)

section \<open>Failures of the backend\<close>







section \<open>The fast engine\<close>

lemma consume_yielding: "consume (yielding texts) = Inr texts"
  by (induction texts) simp_all

text \<open>
  C5: with the fast engine, when the upload has been saved and the backend returns a
  generator that yields the segments \<open>texts\<close> and the metadata \<open>info\<close>, the comprehension
  consumes all of them, the variable \<^verbatim>\<open>text\<close> is their texts joined by single spaces in
  order, and the language is the one of the metadata. The handler returns the dict with
  that text stripped, that language and the task, or, for the output \<^verbatim>\<open>txt\<close>, the
  joined text.
\<close>

theorem fast_engine_joins_segments:
  assumes "audio_file rq = Some up"
    and "ASR_ENGINE cfg = ''faster_whisper''"
    and "save_upload L up w = (Inr p, w0)"
    and "get_model L cfg w0 = (Inr h, w1)"
    and "fw_transcribe L h p (Some (task rq)) (Some (language rq)) (Some 5) (files w1)
           = (Inr (yielding texts, info), fs2)"
  shows "fst (asr_engine L cfg h p rq (files w1))
           = Inr (PStr (join '' '' texts), PStr (info_language info))
       \<and> fst (transcribe L cfg rq w) =
           Inr (if output rq = ''txt''
                then JSONResponse (PStr (join '' '' texts)) ''text/plain''
                else TranscriptDict (strip (join '' '' texts)) (PStr (info_language info))
                       (task rq))"
  using assms(2,4,5)
  by (simp add: transcribe_saved[OF assms(1,3)] except_finally_fst asr_try_def asr_engine_def
      consume_yielding)

text \<open>
  C5, at the segments \<^verbatim>\<open>Hello\<close>, \<^verbatim>\<open>world\<close> and the language \<^verbatim>\<open>en\<close>.
\<close>

theorem fast_engine_joins_segments_witness:
  "fst (transcribe hello_world faster_cfg (request PNone ''json'') fresh)
     = Inr (TranscriptDict ''Hello world'' (PStr ''en'') ''transcribe'')"
proof -
  let ?L = hello_world
  let ?p = "''/tmp/tmpq3x.wav''"
  let ?rq = "request PNone ''json''"
  let ?w1 = "snd (get_model ?L faster_cfg saved)"
  let ?call = "fw_transcribe ?L 7 ?p (Some (task ?rq)) (Some (language ?rq)) (Some 5) (files ?w1)"
  have r: "audio_file ?rq = Some clip" by (simp add: request_def)
  have e: "ASR_ENGINE faster_cfg = ''faster_whisper''" by (simp add: faster_cfg_def)
  have s: "save_upload ?L clip fresh = (Inr ?p, saved)"
    unfolding hello_world_def by (rule save_clip)
  have "fst (get_model ?L faster_cfg saved) = Inr 7"
    unfolding hello_world_def by (rule load_saved)
  then have g: "get_model ?L faster_cfg saved = (Inr 7, ?w1)" by (metis prod.collapse)
  have "fst ?call = Inr (yielding [''Hello'', ''world''], TranscriptionInfo ''en'' (9 / 10))"
    by (simp add: example_defs libs_defs)
  then have f: "?call
          = (Inr (yielding [''Hello'', ''world''], TranscriptionInfo ''en'' (9 / 10)), snd ?call)"
    by (metis prod.collapse)
  from fast_engine_joins_segments[OF r e s g f]
  have "fst (transcribe ?L faster_cfg ?rq fresh) =
           Inr (if output ?rq = ''txt''
                then JSONResponse (PStr (join '' '' [''Hello'', ''world''])) ''text/plain''
                else TranscriptDict (strip (join '' '' [''Hello'', ''world'']))
                       (PStr (info_language (TranscriptionInfo ''en'' (9 / 10)))) (task ?rq))"
    by blast
  then show ?thesis by (simp add: request_def string_defs)
qed

section \<open>The output value\<close>

lemma asr_engine_output:
  "asr_engine L cfg h p (rq\<lparr>output := out\<rparr>) fs = asr_engine L cfg h p rq fs"
  by (simp add: asr_engine_def cong: prod.case_cong sum.case_cong option.case_cong)

lemma asr_try_load_fails:
  "get_model L cfg w = (Inl e, w1) \<Longrightarrow> asr_try L cfg rq p w = (Inl e, w1)"
  by (simp add: asr_try_def)

lemma asr_try_engine_fails:
  "get_model L cfg w = (Inr h, w1) \<Longrightarrow> asr_engine L cfg h p rq (files w1) = (Inl e, fs2)
     \<Longrightarrow> asr_try L cfg rq p w = (Inl e, w1\<lparr>files := fs2\<rparr>)"
  by (simp add: asr_try_def)

lemma asr_try_engine_returns:
  "get_model L cfg w = (Inr h, w1)
     \<Longrightarrow> asr_engine L cfg h p rq (files w1) = (Inr (text, lang), fs2)
     \<Longrightarrow> asr_try L cfg rq p w =
         (if output rq = ''txt'' then (Inr (JSONResponse text ''text/plain''), w1\<lparr>files := fs2\<rparr>)
          else (case text of
                  PStr s \<Rightarrow> (Inr (TranscriptDict (strip s) lang (task rq)), w1\<lparr>files := fs2\<rparr>)
                | PNone \<Rightarrow>
                    (Inl (CHR 0x27 # ''NoneType'' @ CHR 0x27 # '' object has no attribute ''
                          @ CHR 0x27 # ''strip'' @ [CHR 0x27]),
                     w1\<lparr>files := fs2\<rparr>)))"
  by (simp add: asr_try_def)

lemma asr_try_shape:
  assumes "fst (asr_try L cfg rq p w) = Inr r"
  shows "is_TranscriptDict r = (output rq \<noteq> ''txt'')"
proof -
  obtain r1 w1 where g: "get_model L cfg w = (r1, w1)" by (cases "get_model L cfg w")
  show ?thesis
  proof (cases r1)
    case (Inl e)
    with g assms show ?thesis by (simp add: asr_try_load_fails)
  next
    case (Inr h)
    obtain r2 fs2 where en: "asr_engine L cfg h p rq (files w1) = (r2, fs2)"
      by (cases "asr_engine L cfg h p rq (files w1)")
    show ?thesis
    proof (cases r2)
      case (Inl e)
      with g Inr en assms show ?thesis by (simp add: asr_try_engine_fails)
    next
      case (Inr tl)
      obtain t lang where tl: "tl = (t, lang)" by (cases tl)
      from g \<open>r1 = Inr h\<close> have g': "get_model L cfg w = (Inr h, w1)" by simp
      from en Inr tl have en': "asr_engine L cfg h p rq (files w1) = (Inr (t, lang), fs2)"
        by simp
      from assms show ?thesis
        unfolding asr_try_engine_returns[OF g' en']
        by (cases t) (auto split: if_splits)
    qed
  qed
qed

lemma asr_try_output:
  assumes "output rq \<noteq> ''txt''" and "out \<noteq> ''txt''"
  shows "asr_try L cfg (rq\<lparr>output := out\<rparr>) p w = asr_try L cfg rq p w"
proof -
  obtain r1 w1 where g: "get_model L cfg w = (r1, w1)" by (cases "get_model L cfg w")
  show ?thesis
  proof (cases r1)
    case (Inl e)
    with g show ?thesis by (simp add: asr_try_load_fails)
  next
    case (Inr h)
    obtain r2 fs2 where en: "asr_engine L cfg h p rq (files w1) = (r2, fs2)"
      by (cases "asr_engine L cfg h p rq (files w1)")
    from g Inr have g': "get_model L cfg w = (Inr h, w1)" by simp
    show ?thesis
    proof (cases r2)
      case (Inl e)
      with en have en': "asr_engine L cfg h p rq (files w1) = (Inl e, fs2)" by simp
      then have en'': "asr_engine L cfg h p (rq\<lparr>output := out\<rparr>) (files w1) = (Inl e, fs2)"
        by (simp add: asr_engine_output)
      show ?thesis
        by (simp add: asr_try_engine_fails[OF g' en'] asr_try_engine_fails[OF g' en''])
    next
      case (Inr tl)
      obtain t lang where tl: "tl = (t, lang)" by (cases tl)
      from en Inr tl have en': "asr_engine L cfg h p rq (files w1) = (Inr (t, lang), fs2)"
        by simp
      then have en'':
        "asr_engine L cfg h p (rq\<lparr>output := out\<rparr>) (files w1) = (Inr (t, lang), fs2)"
        by (simp add: asr_engine_output)
      from assms show ?thesis
        by (cases t) (simp_all add: asr_try_engine_returns[OF g' en'] asr_try_engine_returns[OF g' en''])
    qed
  qed
qed

text \<open>
  C10: whenever \<^verbatim>\<open>transcribe\<close> returns, it returns the dict with text, language and
  task exactly when the output value is not \<^verbatim>\<open>txt\<close>; and two output values other than
  \<^verbatim>\<open>txt\<close> give the same behaviour altogether.
\<close>

theorem txt_only_special_case:
  assumes "fst (transcribe L cfg rq w) = Inr r"
  shows "is_TranscriptDict r = (output rq \<noteq> ''txt'')
       \<and> (output rq \<noteq> ''txt'' \<and> out \<noteq> ''txt''
            \<longrightarrow> transcribe L cfg (rq\<lparr>output := out\<rparr>) w = transcribe L cfg rq w)"
proof (cases "audio_file rq")
  case None
  with assms show ?thesis by (simp add: transcribe_def)
next
  case (Some up)
  obtain s w0 where sv: "save_upload L up w = (s, w0)" by (cases "save_upload L up w")
  show ?thesis
  proof (cases s)
    case (Inl e)
    with sv have "save_upload L up w = (Inl e, w0)" by simp
    from transcribe_unsaved[OF Some this] assms show ?thesis by simp
  next
    case (Inr p)
    with sv have sv': "save_upload L up w = (Inr p, w0)" by simp
    have up': "audio_file (rq\<lparr>output := out\<rparr>) = Some up" using Some by simp
    from assms
    have "fst (asr_try L cfg rq p w0) = Inr r"
      by (simp add: transcribe_saved[OF Some sv'] except_finally_fst split: sum.splits)
    from asr_try_shape[OF this] have a: "is_TranscriptDict r = (output rq \<noteq> ''txt'')" .
    have b: "output rq \<noteq> ''txt'' \<and> out \<noteq> ''txt''
              \<longrightarrow> transcribe L cfg (rq\<lparr>output := out\<rparr>) w = transcribe L cfg rq w"
      by (simp add: transcribe_saved[OF Some sv'] transcribe_saved[OF up' sv'] asr_try_output)
    from a b show ?thesis by blast
  qed
qed

text \<open>
  C10, at the output values \<^verbatim>\<open>vtt\<close> and \<^verbatim>\<open>srt\<close>.
\<close>

theorem txt_only_special_case_witness:
  "fst (transcribe std_no_language openai_cfg (request PNone ''vtt'') fresh)
     = Inr (TranscriptDict ''Hi there'' PNone ''transcribe'')
   \<and> is_TranscriptDict (TranscriptDict ''Hi there'' PNone ''transcribe'')
   \<and> transcribe std_no_language openai_cfg ((request PNone ''vtt'')\<lparr>output := ''srt''\<rparr>) fresh
       = transcribe std_no_language openai_cfg (request PNone ''vtt'') fresh"
proof -
  let ?rq = "request PNone ''vtt''"
  have h: "fst (transcribe std_no_language openai_cfg ?rq fresh)
             = Inr (TranscriptDict ''Hi there'' PNone ''transcribe'')"
    by (simp add: handler_defs cleanup_defs example_defs libs_defs string_defs)
  have o: "output ?rq \<noteq> ''txt''" "''srt'' \<noteq> ''txt''" by (simp_all add: request_def)
  from txt_only_special_case[OF h, of "''srt''"] o h show ?thesis by blast
qed

text \<open>
  C2, evaluated: for the output \<^verbatim>\<open>txt\<close> the handler returns at line 127, before the
  \<^verbatim>\<open>strip\<close> of line 130, so the content is the backend's text with its whitespace, for
  both engines; the same standard-engine text is stripped in the dict of the other
  outputs.
\<close>

theorem txt_output_not_trimmed:
  "fst (transcribe std_no_language openai_cfg (request PNone ''txt'') fresh)
     = Inr (JSONResponse (PStr '' Hi there '') ''text/plain'')
   \<and> fst (transcribe spaced_segments faster_cfg (request PNone ''txt'') fresh)
     = Inr (JSONResponse (PStr '' Hello  world'') ''text/plain'')
   \<and> strip '' Hi there '' = ''Hi there''
   \<and> strip '' Hello  world'' = ''Hello  world''
   \<and> fst (transcribe std_no_language openai_cfg (request PNone ''json'') fresh)
     = Inr (TranscriptDict ''Hi there'' PNone ''transcribe'')"
  by (simp add: handler_defs cleanup_defs example_defs libs_defs string_defs)

section \<open>The language of the standard engine\<close>

text \<open>
  C1, as the code has it: with the standard engine and an output other than
  \<^verbatim>\<open>txt\<close>, when the upload has been saved and the backend's result has the text \<open>t\<close>
  and no language key, the handler returns the stripped text, the requested language and
  the task.
\<close>

theorem language_fallback_absent_key:
  assumes "audio_file rq = Some up"
    and "ASR_ENGINE cfg \<noteq> ''faster_whisper''"
    and "save_upload L up w = (Inr p, w0)"
    and "get_model L cfg w0 = (Inr h, w1)"
    and "ow_transcribe L h p (task rq) (language rq) (files w1) = (Inr result, fs2)"
    and "result ''text'' = Some (PStr t)"
    and "result ''language'' = None"
    and "output rq \<noteq> ''txt''"
  shows "fst (transcribe L cfg rq w) = Inr (TranscriptDict (strip t) (language rq) (task rq))"
  using assms(2,4,5,6,7,8)
  by (simp add: transcribe_saved[OF assms(1,3)] except_finally_fst asr_try_def asr_engine_def)

text \<open>
  C1, at the result with the text \<^verbatim>\<open>" Hi there "\<close> and no language key, and the
  requested language \<^verbatim>\<open>fr\<close>.
\<close>

theorem language_fallback_absent_key_witness:
  "fst (transcribe std_no_language openai_cfg (request (PStr ''fr'') ''json'') fresh)
     = Inr (TranscriptDict ''Hi there'' (PStr ''fr'') ''transcribe'')"
proof -
  let ?L = std_no_language
  let ?p = "''/tmp/tmpq3x.wav''"
  let ?rq = "request (PStr ''fr'') ''json''"
  let ?w1 = "snd (get_model ?L openai_cfg saved)"
  let ?call = "ow_transcribe ?L 7 ?p (task ?rq) (language ?rq) (files ?w1)"
  have r: "audio_file ?rq = Some clip" by (simp add: request_def)
  have e: "ASR_ENGINE openai_cfg \<noteq> ''faster_whisper''" by (simp add: openai_cfg_def)
  have s: "save_upload ?L clip fresh = (Inr ?p, saved)"
    unfolding std_no_language_def by (rule save_clip)
  have "fst (get_model ?L openai_cfg saved) = Inr 7"
    unfolding std_no_language_def by (rule load_saved)
  then have g: "get_model ?L openai_cfg saved = (Inr 7, ?w1)" by (metis prod.collapse)
  have "fst ?call = Inr [''text'' \<mapsto> PStr '' Hi there '']"
    by (simp add: example_defs libs_defs)
  then have c: "?call = (Inr [''text'' \<mapsto> PStr '' Hi there ''], snd ?call)"
    by (metis prod.collapse)
  have t: "[''text'' \<mapsto> PStr '' Hi there ''] ''text'' = Some (PStr '' Hi there '')" by simp
  have l: "[''text'' \<mapsto> PStr '' Hi there ''] ''language'' = None" by simp
  have o: "output ?rq \<noteq> ''txt''" by (simp add: request_def)
  from language_fallback_absent_key[OF r e s g c t l o]
  have "fst (transcribe ?L openai_cfg ?rq fresh)
          = Inr (TranscriptDict (strip '' Hi there '') (language ?rq) (task ?rq))" .
  then show ?thesis by (simp add: request_def string_defs)
qed

text \<open>
  C1 as stated fails when the key is present with the value \<^verbatim>\<open>None\<close>:
  \<^verbatim>\<open>result.get("language", language)\<close> returns the \<^verbatim>\<open>None\<close> of the result, not the
  requested \<^verbatim>\<open>fr\<close>.
\<close>

theorem language_none_not_replaced:
  "fst (transcribe std_language_none openai_cfg (request (PStr ''fr'') ''json'') fresh)
     = Inr (TranscriptDict ''Hi there'' PNone ''transcribe'')
   \<and> fst (transcribe std_language_none openai_cfg (request (PStr ''fr'') ''json'') fresh)
     \<noteq> Inr (TranscriptDict ''Hi there'' (PStr ''fr'') ''transcribe'')"
  by (simp add: handler_defs cleanup_defs example_defs libs_defs string_defs)

section \<open>Language detection with the standard engine\<close>







end
